theory Spec2Isabelle
  imports Main "HOL-Library.Word" "HOL-Library.Signed_Division"
    "HOL-Library.Char_ord" "HOL-Library.List_Lexorder"
begin

unbundle bit_operations_syntax

section \<open>Machine integers, durations and instants\<close>

text \<open>
  Go's \<^verbatim>\<open>uint64\<close> is a 64-bit word. \<^verbatim>\<open>time.Duration\<close> is an \<^verbatim>\<open>int64\<close> count of
  nanoseconds: the same 64-bit word, read in two's complement by \<open>sint\<close>, with \<open>+\<close> and
  \<open>-\<close> wrapping around and the comparisons signed. The conversion
  \<^verbatim>\<open>time.Duration(height)\<close> of a \<^verbatim>\<open>uint64\<close> keeps the bits, so in the model it is the
  identity on words.
\<close>

type_synonym uint64 = "64 word"
type_synonym Duration = "64 word"

text \<open>An instant (\<^verbatim>\<open>time.Time\<close>) is a count of nanoseconds on an unbounded time line.\<close>

type_synonym Time = int

definition Millisecond :: Duration where
  "Millisecond = 1000000"

definition Second :: Duration where
  "Second = 1000000000"

definition Hour :: Duration where
  "Hour = 3600000000000"

definition minDuration :: Duration where
  "minDuration = - (2 ^ 63)"

definition maxDuration :: Duration where
  "maxDuration = 2 ^ 63 - 1"

text \<open>The range of \<^verbatim>\<open>int64\<close>.\<close>

definition in_int64 :: "int \<Rightarrow> bool" where
  "in_int64 k = (- (2 ^ 63) \<le> k \<and> k < 2 ^ 63)"

text \<open>
  \<^verbatim>\<open>t.Sub(u)\<close> of the standard library: the difference of two instants, and the
  minimum or maximum duration when the difference does not fit.
\<close>

definition Sub :: "Time \<Rightarrow> Time \<Rightarrow> Duration" where
  "Sub t u =
     (let d = t - u
      in if d < - (2 ^ 63) then minDuration
         else if 2 ^ 63 \<le> d then maxDuration
         else word_of_int d)"

text \<open>
  Go's \<^verbatim>\<open>/\<close> on \<^verbatim>\<open>int64\<close>: the quotient truncated towards zero, wrapped to 64 bits (the
  one overflow is the least value divided by \<open>-1\<close>, which gives the least value again).
  A zero divisor panics in Go; the only division of the program is guarded by a test of
  the divisor.
\<close>

definition Duration_div :: "Duration \<Rightarrow> Duration \<Rightarrow> Duration" where
  "Duration_div a b = word_of_int (sint a sdiv sint b)"

section \<open>The block-time pacer\<close>

text \<open>
  \<^verbatim>\<open>calculateAverageBlockTime(genesis, blockHeight)\<close>; the instant read by
  \<^verbatim>\<open>time.Now()\<close> is the parameter \<open>now\<close>.
\<close>

definition calculateAverageBlockTime :: "Time \<Rightarrow> Time \<Rightarrow> uint64 \<Rightarrow> Duration" where
  "calculateAverageBlockTime now genesis blockHeight =
     (let genesisBlockHeight = (1 :: uint64);
          height = blockHeight - genesisBlockHeight;
          sinceGenesis = Sub now genesis
      in if height = 0 then sinceGenesis
         else Duration_div sinceGenesis height)"

definition calculateBlockTimeBuffer ::
  "Duration \<Rightarrow> Duration \<Rightarrow> Duration \<Rightarrow> Duration \<Rightarrow> Duration" where
  "calculateBlockTimeBuffer goal average untilNow delta =
     (let epsilon = 50 * Millisecond;
          blockTimeBuffer =
            (if word_sle goal average then
               (if word_sless (average - goal) epsilon then goal - untilNow
                else goal - delta - untilNow)
             else
               (if word_sless (goal - average) epsilon then goal - untilNow
                else goal + delta - untilNow))
      in if word_sless blockTimeBuffer 0 then 0 else blockTimeBuffer)"

section \<open>The ISAAC state\<close>

text \<open>
  \<^verbatim>\<open>ballot.State\<close> with the four constants the state manager names.
\<close>

datatype ballot_State = StateINIT | StateSIGN | StateACCEPT | StateALLCONFIRM

text \<open>\<^verbatim>\<open>voting.Hole\<close>; the state manager names only \<^verbatim>\<open>voting.EXP\<close>.\<close>

datatype voting_Hole = NOTYET | YES | NO | EXP

record ISAACState =
  Height :: uint64
  Round :: uint64
  BallotState :: ballot_State

text \<open>
  Modelled from the spec: the ordinal of a ballot state, whose declaration
  (package \<^verbatim>\<open>ballot\<close>) is not among the sources. The spec gives INIT = 0, SIGN = 1,
  ACCEPT = 2, ALLCONFIRM = 3.
\<close>

fun ordinal :: "ballot_State \<Rightarrow> nat" where
  "ordinal StateINIT = 0"
| "ordinal StateSIGN = 1"
| "ordinal StateACCEPT = 2"
| "ordinal StateALLCONFIRM = 3"

text \<open>
  Modelled from the spec: \<^verbatim>\<open>ISAACState.IsLater\<close> (package \<^verbatim>\<open>consensus\<close>), which is
  not among the sources. \<open>IsLater a b\<close> holds iff \<open>b\<close> is greater than \<open>a\<close> in the
  lexicographic order on height, round and ballot-state ordinal.
\<close>

definition IsLater :: "ISAACState \<Rightarrow> ISAACState \<Rightarrow> bool" where
  "IsLater a b =
     (Height a < Height b \<or>
      (Height a = Height b \<and>
       (Round a < Round b \<or>
        (Round a = Round b \<and> ordinal (BallotState a) < ordinal (BallotState b)))))"

section \<open>The state manager\<close>

record Config =
  BlockTime :: Duration
  TimeoutINIT :: Duration
  TimeoutSIGN :: Duration
  TimeoutACCEPT :: Duration

text \<open>The latest confirmed block, as \<^verbatim>\<open>Consensus().LatestBlock()\<close> returns it.\<close>

record Block =
  Height_Block :: uint64
  Hash_Block :: string
  TotalTxs :: uint64
  TotalOps :: uint64
  Confirmed :: string

record Basis =
  Round_Basis :: uint64
  Height_Basis :: uint64
  BlockHash :: string
  TotalTxs_Basis :: uint64
  TotalOps_Basis :: uint64

text \<open>
  The expiration ballot as \<^verbatim>\<open>broadcastExpiredBallot\<close> fills it in: sender, proposer,
  basis, an empty transaction list, and the vote. The proposer transaction and the two
  signatures are computed from these fields and the node's keys by code that is not
  among the sources; they carry no further input and are left out.
\<close>

record Ballot =
  Source_Ballot :: string
  Proposer :: string
  basis :: Basis
  Transactions :: "string list"
  State_Ballot :: ballot_State
  Vote :: voting_Hole

text \<open>
  What a handler of the manager reads from the node runner while it runs: the latest
  block, the proposer selection, the local address, whether \<^verbatim>\<open>proposeNewBallot\<close>
  succeeds, the parser of the confirmation time (the zero instant on a parse error) and
  the two readings of the clock that \<^verbatim>\<open>SetBlockTimeBuffer\<close> makes.
\<close>

record NodeRunner =
  LatestBlock :: Block
  SelectProposer :: "uint64 \<Rightarrow> uint64 \<Rightarrow> string"
  localNode_Address :: string
  proposeNewBallot_ok :: bool
  ParseISO8601 :: "string \<Rightarrow> Time"
  Now_average :: Time
  Now_untilNow :: Time

text \<open>
  The manager. \<open>stateTransit\<close> holds the targets of the goroutines blocked on the send
  \<^verbatim>\<open>sm.stateTransit <- target\<close> (the channel is unbuffered), in the order they were
  spawned. \<open>timer\<close> is the loop's timer: \<open>Some d\<close> when it was last reset to \<open>d\<close> and has not
  fired since, \<open>None\<close> once it has fired. The last four fields record effects: the
  arguments of the calls of \<^verbatim>\<open>transitSignal\<close>, the ballots handed to
  \<^verbatim>\<open>ConnectionManager().Broadcast\<close>, the rounds given to \<^verbatim>\<open>proposeNewBallot\<close>, and
  whether the loop has returned.
\<close>

record ISAACStateManager =
  state :: ISAACState
  stateTransit :: "ISAACState list"
  blockTimeBuffer :: Duration
  genesis :: Time
  Conf :: Config
  timer :: "Duration option"
  signalled :: "ISAACState list"
  broadcast :: "Ballot list"
  proposed :: "uint64 list"
  stopped :: bool

definition NewISAACStateManager :: "Time \<Rightarrow> Config \<Rightarrow> ISAACStateManager" where
  "NewISAACStateManager genesisTimestamp conf =
     \<lparr> state = \<lparr> Height = 0, Round = 0, BallotState = StateINIT \<rparr>,
       stateTransit = [],
       blockTimeBuffer = 2 * Second,
       genesis = genesisTimestamp,
       Conf = conf,
       timer = None,
       signalled = [],
       broadcast = [],
       proposed = [],
       stopped = False \<rparr>"

definition State :: "ISAACStateManager \<Rightarrow> ISAACState" where
  "State sm = state sm"

definition setState :: "ISAACStateManager \<Rightarrow> ISAACState \<Rightarrow> ISAACStateManager" where
  "setState sm s = sm\<lparr>state := s\<rparr>"

definition setBallotState :: "ISAACStateManager \<Rightarrow> ballot_State \<Rightarrow> ISAACStateManager" where
  "setBallotState sm ballotState = sm\<lparr>state := (state sm)\<lparr>BallotState := ballotState\<rparr>\<rparr>"

definition transitSignal :: "ISAACStateManager \<Rightarrow> ISAACState \<Rightarrow> ISAACStateManager" where
  "transitSignal sm s = sm\<lparr>signalled := signalled sm @ [s]\<rparr>"

definition getBallotProposedTime :: "NodeRunner \<Rightarrow> string \<Rightarrow> Time" where
  "getBallotProposedTime nr timeStr = ParseISO8601 nr timeStr"

definition SetBlockTimeBuffer :: "NodeRunner \<Rightarrow> ISAACStateManager \<Rightarrow> ISAACStateManager" where
  "SetBlockTimeBuffer nr sm =
     (let b = LatestBlock nr;
          ballotProposedTime = getBallotProposedTime nr (Confirmed b)
      in sm\<lparr>blockTimeBuffer :=
              calculateBlockTimeBuffer
                (BlockTime (Conf sm))
                (calculateAverageBlockTime (Now_average nr) (genesis sm) (Height_Block b))
                (Sub (Now_untilNow nr) ballotProposedTime)
                (1 * Second)\<rparr>)"

text \<open>
  \<^verbatim>\<open>TransitISAACState\<close>: the target is handed to a new goroutine that sends it on the
  channel, only when it is later than the state read at the call.
\<close>

definition TransitISAACState ::
  "ISAACStateManager \<Rightarrow> uint64 \<Rightarrow> uint64 \<Rightarrow> ballot_State \<Rightarrow> ISAACStateManager" where
  "TransitISAACState sm height round ballotState =
     (let current = state sm;
          target = \<lparr> Height = height, Round = round, BallotState = ballotState \<rparr>
      in if IsLater current target
         then sm\<lparr>stateTransit := stateTransit sm @ [target]\<rparr>
         else sm)"

definition IncreaseRound :: "ISAACStateManager \<Rightarrow> ISAACStateManager" where
  "IncreaseRound sm =
     (let s = State sm in TransitISAACState sm (Height s) (Round s + 1) StateINIT)"

definition NextHeight :: "ISAACStateManager \<Rightarrow> ISAACStateManager" where
  "NextHeight sm =
     (let s = State sm in TransitISAACState sm (Height s + 1) 0 StateINIT)"

text \<open>
  Modelled from the spec: the successor of a ballot state, INIT to SIGN to ACCEPT to
  ALLCONFIRM. The spec gives ALLCONFIRM no successor; here it stays where it is. The
  functions of the manager do not use this definition (they take the successor function
  as a parameter, and what is proved of them holds for every such function); it serves
  to run them on the scenarios of the spec.
\<close>

fun successor :: "ballot_State \<Rightarrow> ballot_State" where
  "successor StateINIT = StateSIGN"
| "successor StateSIGN = StateACCEPT"
| "successor StateACCEPT = StateALLCONFIRM"
| "successor StateALLCONFIRM = StateALLCONFIRM"

text \<open>
  \<^verbatim>\<open>broadcastExpiredBallot\<close>: the ballot that is broadcast. \<open>Next\<close> stands for
  \<^verbatim>\<open>ballot.State.Next\<close>, which is not among the sources; it is a parameter of every
  function that calls it.
\<close>

definition broadcastExpiredBallot ::
  "(ballot_State \<Rightarrow> ballot_State) \<Rightarrow> NodeRunner \<Rightarrow> ISAACState \<Rightarrow> Ballot" where
  "broadcastExpiredBallot Next nr s =
     (let b = LatestBlock nr;
          bs = \<lparr> Round_Basis = Round s,
                 Height_Basis = Height_Block b,
                 BlockHash = Hash_Block b,
                 TotalTxs_Basis = TotalTxs b,
                 TotalOps_Basis = TotalOps b \<rparr>;
          proposerAddr = SelectProposer nr (Height_Block b) (Round s)
      in \<lparr> Source_Ballot = localNode_Address nr,
           Proposer = proposerAddr,
           basis = bs,
           Transactions = [],
           State_Ballot = Next (BallotState s),
           Vote = EXP \<rparr>)"

text \<open>\<^verbatim>\<open>resetTimer\<close>: the switch has three cases and no default.\<close>

definition resetTimer :: "ISAACStateManager \<Rightarrow> ballot_State \<Rightarrow> ISAACStateManager" where
  "resetTimer sm s =
     (case s of
        StateINIT \<Rightarrow> sm\<lparr>timer := Some (TimeoutINIT (Conf sm))\<rparr>
      | StateSIGN \<Rightarrow> sm\<lparr>timer := Some (TimeoutSIGN (Conf sm))\<rparr>
      | StateACCEPT \<Rightarrow> sm\<lparr>timer := Some (TimeoutACCEPT (Conf sm))\<rparr>
      | StateALLCONFIRM \<Rightarrow> sm)"

text \<open>
  \<^verbatim>\<open>proposeOrWait\<close>. The sleep of the proposer changes no field; the call of
  \<^verbatim>\<open>proposeNewBallot\<close> is recorded, and the timer is reset whether or not it fails.
\<close>

definition proposeOrWait ::
  "NodeRunner \<Rightarrow> ISAACStateManager \<Rightarrow> ISAACState \<Rightarrow> ISAACStateManager" where
  "proposeOrWait nr sm s =
     (let sm1 = sm\<lparr>timer := Some (1 * Hour)\<rparr>;
          proposer = SelectProposer nr (Height s) (Round s);
          sm2 = (if proposer = localNode_Address nr
                 then sm1\<lparr>proposed := proposed sm1 @ [Round s],
                          timer := Some (TimeoutINIT (Conf sm1))\<rparr>
                 else sm1\<lparr>timer := Some (blockTimeBuffer sm1 + TimeoutINIT (Conf sm1))\<rparr>)
      in transitSignal (setState sm2 s) s)"

text \<open>The body of \<^verbatim>\<open>case <-timer.C\<close> in \<^verbatim>\<open>Start\<close>; the timer has fired.\<close>

definition onTimer ::
  "(ballot_State \<Rightarrow> ballot_State) \<Rightarrow> NodeRunner \<Rightarrow> ISAACStateManager \<Rightarrow> ISAACStateManager" where
  "onTimer Next nr sm0 =
     (let sm = sm0\<lparr>timer := None\<rparr>
      in if BallotState (State sm) = StateACCEPT
         then IncreaseRound (SetBlockTimeBuffer nr sm)
         else
           (let sm1 = sm\<lparr>broadcast := broadcast sm @ [broadcastExpiredBallot Next nr (State sm)]\<rparr>;
                sm2 = setBallotState sm1 (Next (BallotState (State sm1)));
                sm3 = resetTimer sm2 (BallotState (State sm2))
            in transitSignal sm3 (State sm3)))"

text \<open>The body of \<^verbatim>\<open>case state := <-sm.stateTransit\<close> in \<^verbatim>\<open>Start\<close>.\<close>

definition onTransit ::
  "NodeRunner \<Rightarrow> ISAACStateManager \<Rightarrow> ISAACState \<Rightarrow> ISAACStateManager" where
  "onTransit nr sm s =
     (case BallotState s of
        StateINIT \<Rightarrow> proposeOrWait nr sm s
      | StateSIGN \<Rightarrow>
          (transitSignal (setState sm s) s)\<lparr>timer := Some (TimeoutSIGN (Conf sm))\<rparr>
      | StateACCEPT \<Rightarrow>
          (transitSignal (setState sm s) s)\<lparr>timer := Some (TimeoutACCEPT (Conf sm))\<rparr>
      | StateALLCONFIRM \<Rightarrow>
          NextHeight (SetBlockTimeBuffer nr (transitSignal (setState sm s) s)))"

text \<open>
  A configuration and a node runner to run the scenarios of the spec on: block time
  5 s, timeouts of 2 s, a latest block at height 7, and a proposer that is not the local
  node.
\<close>

definition scenario_Config :: Config where
  "scenario_Config =
     \<lparr> BlockTime = 5 * Second, TimeoutINIT = 2 * Second, TimeoutSIGN = 2 * Second,
       TimeoutACCEPT = 2 * Second \<rparr>"

definition scenario_NodeRunner :: NodeRunner where
  "scenario_NodeRunner =
     \<lparr> LatestBlock = \<lparr> Height_Block = 7, Hash_Block = ''block-7'', TotalTxs = 10,
                       TotalOps = 20, Confirmed = ''t'' \<rparr>,
       SelectProposer = (\<lambda>h r. ''node-2''),
       localNode_Address = ''node-1'',
       proposeNewBallot_ok = True,
       ParseISO8601 = (\<lambda>s. 40 * 1000000000),
       Now_average = 42 * 1000000000,
       Now_untilNow = 42 * 1000000000 \<rparr>"

text \<open>
  What can happen to a running manager: a caller invokes \<^verbatim>\<open>TransitISAACState\<close>; the
  loop's \<^verbatim>\<open>select\<close> takes the timer, the \<open>i\<close>-th blocked sender or the stop signal. An
  event that cannot happen in the given state (the timer has not been set, there is no
  such sender, the loop has returned) gives \<open>None\<close>.
\<close>

datatype event =
  Call_TransitISAACState uint64 uint64 ballot_State
| Select_timer
| Select_stateTransit nat
| Select_stop

definition step ::
  "(ballot_State \<Rightarrow> ballot_State) \<Rightarrow> NodeRunner \<Rightarrow> ISAACStateManager \<Rightarrow> event
     \<Rightarrow> ISAACStateManager option" where
  "step Next nr sm ev =
     (case ev of
        Call_TransitISAACState h r b \<Rightarrow> Some (TransitISAACState sm h r b)
      | Select_timer \<Rightarrow>
          (if stopped sm \<or> timer sm = None then None else Some (onTimer Next nr sm))
      | Select_stateTransit i \<Rightarrow>
          (if stopped sm \<or> length (stateTransit sm) \<le> i then None
           else Some (onTransit nr
                        (sm\<lparr>stateTransit := take i (stateTransit sm) @ drop (Suc i) (stateTransit sm)\<rparr>)
                        (stateTransit sm ! i)))
      | Select_stop \<Rightarrow> (if stopped sm then None else Some (sm\<lparr>stopped := True\<rparr>)))"

text \<open>
  A run: the events in order, and the list of the states \<^verbatim>\<open>State()\<close> returns after
  each of them, the starting state first.
\<close>

fun observe ::
  "(ballot_State \<Rightarrow> ballot_State) \<Rightarrow> NodeRunner \<Rightarrow> ISAACStateManager \<Rightarrow> event list
     \<Rightarrow> ISAACState list option" where
  "observe Next nr sm [] = Some [State sm]"
| "observe Next nr sm (ev # evs) =
     (case step Next nr sm ev of
        None \<Rightarrow> None
      | Some sm' \<Rightarrow>
          (case observe Next nr sm' evs of
             None \<Rightarrow> None
           | Some ss \<Rightarrow> Some (State sm # ss)))"

fun monotone :: "ISAACState list \<Rightarrow> bool" where
  "monotone (a # b # ss) = ((IsLater a b \<or> a = b) \<and> monotone (b # ss))"
| "monotone ss = True"

section \<open>The block-operation index\<close>

text \<open>
  Go strings are byte sequences: \<open>string\<close>, a list of 8-bit characters. Its order
  \<open><\<close> (characters by their byte value, lists lexicographically, a proper prefix first)
  is the byte-wise comparison of keys.
\<close>

datatype error =
  AlreadySaved
| BlockAlreadyExists
| AlreadyExists
| NotFound
| DecodeFailed
| StorageIO

text \<open>
  Of the transaction, \<^verbatim>\<open>Save\<close> reads \<^verbatim>\<open>B.SequenceID\<close> only; \<open>tx_Hash\<close> and \<open>tx_Source\<close>
  are what \<^verbatim>\<open>GetHash()\<close> and \<^verbatim>\<open>B.Source\<close> give.
\<close>

record Transaction =
  tx_Hash :: string
  tx_Source :: string
  SequenceID :: uint64

record BlockOperation =
  Hash :: string
  OpHash :: string
  TxHash :: string
  Type :: string
  Source :: string
  Body :: string
  Height_bo :: uint64
  transaction :: Transaction
  isSaved :: bool

text \<open>The zero values of Go, which a decoded record has in its unexported fields.\<close>

definition zero_Transaction :: Transaction where
  "zero_Transaction = \<lparr> tx_Hash = [], tx_Source = [], SequenceID = 0 \<rparr>"

text \<open>
  A stored value. The JSON encoder and decoder are not among the sources; a value is
  kept as what decoding it gives back: for a record the exported fields (the unexported
  \<open>transaction\<close> and \<open>isSaved\<close> are not encoded), for a secondary entry the hash string.
\<close>

datatype stored = JBlockOperation BlockOperation | JString string

definition encode_BlockOperation :: "BlockOperation \<Rightarrow> stored" where
  "encode_BlockOperation bo =
     JBlockOperation (bo\<lparr>transaction := zero_Transaction, isSaved := False\<rparr>)"

text \<open>
  Modelled from the spec: the ordered key-value backend (\<^verbatim>\<open>storage.LevelDBBackend\<close>),
  which is not among the sources. \<open>kv\<close> holds the entries in the order they were
  written, with no key twice. \<open>faults\<close> is what the lower level will answer to the
  coming calls, one element per call: \<open>Some e\<close> makes the call fail with \<open>e\<close> and write
  nothing; with no element left the calls succeed.
\<close>

record LevelDBBackend =
  kv :: "(string \<times> stored) list"
  faults :: "error option list"

definition next_fault :: "LevelDBBackend \<Rightarrow> error option \<times> LevelDBBackend" where
  "next_fault st =
     (case faults st of
        [] \<Rightarrow> (None, st)
      | f # fs \<Rightarrow> (f, st\<lparr>faults := fs\<rparr>))"

text \<open>Modelled from the spec: \<^verbatim>\<open>Has(key)\<close>, a presence check or an error.\<close>

definition Has :: "LevelDBBackend \<Rightarrow> string \<Rightarrow> (error + bool) \<times> LevelDBBackend" where
  "Has st key =
     (case next_fault st of
        (Some e, st') \<Rightarrow> (Inl e, st')
      | (None, st') \<Rightarrow> (Inr (map_of (kv st') key \<noteq> None), st'))"

text \<open>Modelled from the spec: \<^verbatim>\<open>Get(key)\<close>, the decoded value, or not found.\<close>

definition Get :: "LevelDBBackend \<Rightarrow> string \<Rightarrow> (error + stored) \<times> LevelDBBackend" where
  "Get st key =
     (case next_fault st of
        (Some e, st') \<Rightarrow> (Inl e, st')
      | (None, st') \<Rightarrow>
          (case map_of (kv st') key of
             None \<Rightarrow> (Inl NotFound, st')
           | Some v \<Rightarrow> (Inr v, st')))"

text \<open>
  Modelled from the spec: \<^verbatim>\<open>New(key, value)\<close> fails with \<open>AlreadyExists\<close> if the key is
  present, and otherwise inserts the encoded value.
\<close>

definition New :: "LevelDBBackend \<Rightarrow> string \<Rightarrow> stored \<Rightarrow> error option \<times> LevelDBBackend" where
  "New st key v =
     (case next_fault st of
        (Some e, st') \<Rightarrow> (Some e, st')
      | (None, st') \<Rightarrow>
          (if map_of (kv st') key \<noteq> None then (Some AlreadyExists, st')
           else (None, st'\<lparr>kv := kv st' @ [(key, v)]\<rparr>)))"

text \<open>
  Modelled from the spec: \<^verbatim>\<open>storage.ListOptions\<close> and \<^verbatim>\<open>GetIterator\<close>. The iterator is
  the list of the items it will yield: the entries under the prefix in ascending key
  order, in descending order when \<open>Reverse\<close> is set, from behind the cursor when there
  is one, and at most \<open>Limit\<close> of them when \<open>Limit\<close> is not zero.
\<close>

record ListOptions =
  Reverse :: bool
  Cursor :: "string option"
  Limit :: nat

definition has_prefix :: "string \<Rightarrow> string \<Rightarrow> bool" where
  "has_prefix p k = (take (length p) k = p)"

definition GetIterator ::
  "LevelDBBackend \<Rightarrow> string \<Rightarrow> ListOptions \<Rightarrow> (string \<times> stored) list" where
  "GetIterator st pfx options =
     (let ascending = sort_key fst (filter (\<lambda>(k, v). has_prefix pfx k) (kv st));
          directed = (if Reverse options then rev ascending else ascending);
          behind = (case Cursor options of
                      None \<Rightarrow> directed
                    | Some c \<Rightarrow>
                        filter (\<lambda>(k, v). if Reverse options then k < c else c < k) directed)
      in if Limit options = 0 then behind else take (Limit options) behind)"

text \<open>
  Modelled from the spec: the key prefixes (constants of package \<^verbatim>\<open>common\<close>, not among
  the sources) and the fixed-width 8-byte big-endian encoding of a \<^verbatim>\<open>uint64\<close>
  (\<^verbatim>\<open>common.EncodeUint64ToByteSlice\<close>, not among the sources).
\<close>

definition BlockOperationPrefixHash :: string where
  "BlockOperationPrefixHash = ''bo-h-''"

definition BlockOperationPrefixTxHash :: string where
  "BlockOperationPrefixTxHash = ''bo-tx-''"

definition BlockOperationPrefixSource :: string where
  "BlockOperationPrefixSource = ''bo-src-''"

fun BigEndian :: "nat \<Rightarrow> nat \<Rightarrow> string" where
  "BigEndian 0 v = []"
| "BigEndian (Suc n) v = BigEndian n (v div 256) @ [char_of (v mod 256)]"

definition EncodeUint64ToByteSlice :: "uint64 \<Rightarrow> string" where
  "EncodeUint64ToByteSlice i = BigEndian 8 (unat i)"

definition NewBlockOperationKey :: "string \<Rightarrow> string \<Rightarrow> string" where
  "NewBlockOperationKey opHash txHash = opHash @ ''-'' @ txHash"

definition GetBlockOperationKey :: "string \<Rightarrow> string" where
  "GetBlockOperationKey hash = BlockOperationPrefixHash @ hash"

definition GetBlockOperationKeyPrefixTxHash :: "string \<Rightarrow> string" where
  "GetBlockOperationKeyPrefixTxHash txHash = BlockOperationPrefixTxHash @ txHash @ ''-''"

definition GetBlockOperationKeyPrefixSource :: "string \<Rightarrow> string" where
  "GetBlockOperationKeyPrefixSource source = BlockOperationPrefixSource @ source @ ''-''"

text \<open>
  The two secondary keys. \<open>uid\<close> is the string \<^verbatim>\<open>common.GetUniqueIDFromUUID()\<close>
  returns at the call.
\<close>

definition NewBlockOperationTxHashKey :: "string \<Rightarrow> BlockOperation \<Rightarrow> string" where
  "NewBlockOperationTxHashKey uid bo =
     GetBlockOperationKeyPrefixTxHash (TxHash bo)
       @ EncodeUint64ToByteSlice (Height_bo bo)
       @ EncodeUint64ToByteSlice (SequenceID (transaction bo))
       @ uid"

definition NewBlockOperationSourceKey :: "string \<Rightarrow> BlockOperation \<Rightarrow> string" where
  "NewBlockOperationSourceKey uid bo =
     GetBlockOperationKeyPrefixSource (Source bo)
       @ EncodeUint64ToByteSlice (Height_bo bo)
       @ EncodeUint64ToByteSlice (SequenceID (transaction bo))
       @ uid"

text \<open>
  \<^verbatim>\<open>Save\<close>. The result is the error (\<open>None\<close> for \<^verbatim>\<open>nil\<close>), the record as the call leaves
  it, the backend as the call leaves it, and the events given to the observer.
  \<open>uid_tx\<close> and \<open>uid_src\<close> are the unique ids drawn for the two secondary keys.
\<close>

definition saved_event :: "BlockOperation \<Rightarrow> string" where
  "saved_event bo =
     ''saved'' @ '' '' @ (''source-'' @ Source bo)
       @ '' '' @ (''hash-'' @ Hash bo)
       @ '' '' @ (''txhash-'' @ TxHash bo)
       @ '' '' @ (''source-type-'' @ Source bo @ Type bo)"

definition Save ::
  "string \<Rightarrow> string \<Rightarrow> BlockOperation \<Rightarrow> LevelDBBackend
     \<Rightarrow> error option \<times> BlockOperation \<times> LevelDBBackend \<times> (string \<times> BlockOperation) list" where
  "Save uid_tx uid_src bo st =
     (if isSaved bo then (Some AlreadySaved, bo, st, [])
      else
        (let key = GetBlockOperationKey (Hash bo)
         in case Has st key of
              (Inl e, st1) \<Rightarrow> (Some e, bo, st1, [])
            | (Inr exists, st1) \<Rightarrow>
                if exists then (Some BlockAlreadyExists, bo, st1, [])
                else
                  (case New st1 key (encode_BlockOperation bo) of
                     (Some e, st2) \<Rightarrow> (Some e, bo, st2, [])
                   | (None, st2) \<Rightarrow>
                       (case New st2 (NewBlockOperationTxHashKey uid_tx bo) (JString (Hash bo)) of
                          (Some e, st3) \<Rightarrow> (Some e, bo, st3, [])
                        | (None, st3) \<Rightarrow>
                            (case New st3 (NewBlockOperationSourceKey uid_src bo) (JString (Hash bo)) of
                               (Some e, st4) \<Rightarrow> (Some e, bo, st4, [])
                             | (None, st4) \<Rightarrow>
                                 (let bo' = bo\<lparr>isSaved := True\<rparr>
                                  in (None, bo', st4, [(saved_event bo', bo')])))))))"

definition ExistsBlockOperation ::
  "LevelDBBackend \<Rightarrow> string \<Rightarrow> (error + bool) \<times> LevelDBBackend" where
  "ExistsBlockOperation st hash = Has st (GetBlockOperationKey hash)"

text \<open>
  \<^verbatim>\<open>GetBlockOperation\<close>: a stored string does not decode into a record, and the decoder's
  error is returned.
\<close>

definition GetBlockOperation ::
  "LevelDBBackend \<Rightarrow> string \<Rightarrow> (error + BlockOperation) \<times> LevelDBBackend" where
  "GetBlockOperation st hash =
     (case Get st (GetBlockOperationKey hash) of
        (Inl e, st') \<Rightarrow> (Inl e, st')
      | (Inr (JBlockOperation bo), st') \<Rightarrow> (Inr (bo\<lparr>isSaved := True\<rparr>), st')
      | (Inr (JString s), st') \<Rightarrow> (Inl DecodeFailed, st'))"

text \<open>
  \<^verbatim>\<open>LoadBlockOperationsInsideIterator\<close>: the records and raw keys the returned function
  yields with \<^verbatim>\<open>hasNext\<close> set, call after call, until the items run out or a record
  cannot be read. A value that does not decode to a string leaves the hash empty.
\<close>

fun LoadBlockOperationsInsideIterator ::
  "LevelDBBackend \<Rightarrow> (string \<times> stored) list \<Rightarrow> (BlockOperation \<times> string) list" where
  "LoadBlockOperationsInsideIterator st [] = []"
| "LoadBlockOperationsInsideIterator st ((k, v) # items) =
     (let hash = (case v of JString h \<Rightarrow> h | JBlockOperation b \<Rightarrow> [])
      in case GetBlockOperation st hash of
           (Inl e, st') \<Rightarrow> []
         | (Inr bo, st') \<Rightarrow> (bo, k) # LoadBlockOperationsInsideIterator st' items)"

definition GetBlockOperationsByTxHash ::
  "LevelDBBackend \<Rightarrow> string \<Rightarrow> ListOptions \<Rightarrow> (BlockOperation \<times> string) list" where
  "GetBlockOperationsByTxHash st txHash options =
     LoadBlockOperationsInsideIterator st
       (GetIterator st (GetBlockOperationKeyPrefixTxHash txHash) options)"

definition GetBlockOperationsBySource ::
  "LevelDBBackend \<Rightarrow> string \<Rightarrow> ListOptions \<Rightarrow> (BlockOperation \<times> string) list" where
  "GetBlockOperationsBySource st source options =
     LoadBlockOperationsInsideIterator st
       (GetIterator st (GetBlockOperationKeyPrefixSource source) options)"

text \<open>A sequence of \<^verbatim>\<open>Save\<close> calls on one backend, each with its ids and its record.\<close>

fun Saves :: "(string \<times> string \<times> BlockOperation) list \<Rightarrow> LevelDBBackend \<Rightarrow> LevelDBBackend" where
  "Saves [] st = st"
| "Saves ((uid_tx, uid_src, bo) # calls) st =
     Saves calls (fst (snd (snd (Save uid_tx uid_src bo st))))"

text \<open>
  Every secondary entry of the store points to a hash whose primary key is present.
\<close>

definition refs_resolve :: "(string \<times> stored) list \<Rightarrow> bool" where
  "refs_resolve es =
     list_all (\<lambda>(k, v). case v of
                           JString h \<Rightarrow> map_of es (GetBlockOperationKey h) \<noteq> None
                         | JBlockOperation b \<Rightarrow> True) es"

text \<open>The entries under a prefix that store a given hash.\<close>

definition entries_under :: "string \<Rightarrow> string \<Rightarrow> (string \<times> stored) list \<Rightarrow> (string \<times> stored) list" where
  "entries_under pfx h es = filter (\<lambda>(k, v). has_prefix pfx k \<and> v = JString h) es"

section \<open>Arithmetic of 64-bit durations\<close>

lemma sint_of_int_in_range:
  "in_int64 k \<Longrightarrow> sint (word_of_int k :: 64 word) = k"
  by (simp add: in_int64_def sint_sbintrunc' signed_take_bit_int_eq_self)

lemma sint_in_int64: "in_int64 (sint (w :: 64 word))"
  using sint_ge [of w] sint_lt [of w] by (simp add: in_int64_def)

lemma sint_diff_exact:
  fixes a b :: "64 word"
  assumes "in_int64 (sint a - sint b)"
  shows "sint (a - b) = sint a - sint b"
proof -
  have "a - b = word_of_int (sint a - sint b)" by simp
  then show ?thesis using assms by (simp only: sint_of_int_in_range)
qed

lemma sint_diff2_exact:
  fixes a b c :: "64 word"
  assumes "in_int64 (sint a - sint b - sint c)"
  shows "sint (a - b - c) = sint a - sint b - sint c"
proof -
  have "a - b - c = word_of_int (sint a - sint b - sint c)" by simp
  then show ?thesis using assms by (simp only: sint_of_int_in_range)
qed

lemma sint_add_diff_exact:
  fixes a b c :: "64 word"
  assumes "in_int64 (sint a + sint b - sint c)"
  shows "sint (a + b - c) = sint a + sint b - sint c"
proof -
  have "a + b - c = word_of_int (sint a + sint b - sint c)" by simp
  then show ?thesis using assms by (simp only: sint_of_int_in_range)
qed

lemma sint_Second: "sint Second = 1000000000"
  by (simp add: Second_def)

lemma sint_epsilon: "sint (50 * Millisecond) = 50000000"
  by (simp add: Millisecond_def)


lemma sdiv_in_int64:
  assumes "in_int64 a" and "1 \<le> d"
  shows "in_int64 (a sdiv d)"
proof -
  have "\<bar>a\<bar> div d \<le> \<bar>a\<bar>" using assms(2)
    by (metis abs_ge_zero div_by_1 zdiv_mono2 zero_less_one)
  moreover have "0 \<le> \<bar>a\<bar> div d" using assms(2) by (simp add: pos_imp_zdiv_nonneg_iff)
  ultimately show ?thesis using assms
    by (auto simp: in_int64_def signed_divide_int_def sgn_if abs_if split: if_splits)
qed

lemma sint_Duration_div_pos:
  assumes "1 \<le> sint b"
  shows "sint (Duration_div a b) = sint a sdiv sint b"
  unfolding Duration_div_def
  by (rule sint_of_int_in_range) (rule sdiv_in_int64 [OF sint_in_int64 assms])

lemma height_small:
  fixes blockHeight :: uint64
  assumes "1 \<le> blockHeight" and "blockHeight \<le> 2 ^ 63"
  shows "uint (blockHeight - 1) = uint blockHeight - 1"
    and "sint (blockHeight - 1) = uint blockHeight - 1"
proof -
  show u: "uint (blockHeight - 1) = uint blockHeight - 1"
    using assms(1) by (simp add: uint_minus_simple_alt)
  have "uint blockHeight \<le> 2 ^ 63" using assms(2) by (simp add: word_le_def)
  with u have lt: "uint (blockHeight - 1) < 2 ^ 63" by simp
  have ge: "- (2 ^ 63) \<le> uint (blockHeight - 1)"
    by (rule order_trans [of _ 0]) simp_all
  have "signed_take_bit 63 (uint (blockHeight - 1)) = uint (blockHeight - 1)"
    using ge lt by (rule signed_take_bit_int_eq_self)
  then have "sint (blockHeight - 1) = uint (blockHeight - 1)"
    by (simp add: sint_uint)
  with u show "sint (blockHeight - 1) = uint blockHeight - 1" by simp
qed

section \<open>The pacer: the buffer\<close>

lemma buffer_nonneg: "0 \<le> sint (calculateBlockTimeBuffer goal average untilNow delta)"
  by (simp add: calculateBlockTimeBuffer_def Let_def word_sless_alt)

lemma buffer_deadband:
  assumes "\<bar>sint average - sint goal\<bar> < sint (50 * Millisecond)"
    and "in_int64 (sint goal - sint untilNow)"
  shows "sint (calculateBlockTimeBuffer goal average untilNow delta)
           = max 0 (sint goal - sint untilNow)"
proof -
  note near = assms(1) [unfolded sint_epsilon]
  have r: "sint (goal - untilNow) = sint goal - sint untilNow"
    using assms(2) by (rule sint_diff_exact)
  show ?thesis
  proof (cases "word_sle goal average")
    case True
    then have le: "sint goal \<le> sint average" by (simp add: word_sle_eq)
    with near have "in_int64 (sint average - sint goal)" by (simp add: in_int64_def)
    then have "sint (average - goal) = sint average - sint goal" by (rule sint_diff_exact)
    with near le have "word_sless (average - goal) (50 * Millisecond)"
      by (simp add: word_sless_alt sint_epsilon)
    with True r show ?thesis
      by (simp add: calculateBlockTimeBuffer_def Let_def word_sless_alt max_def)
  next
    case False
    then have lt: "sint average < sint goal" by (simp add: word_sle_eq)
    with near have "in_int64 (sint goal - sint average)" by (simp add: in_int64_def)
    then have "sint (goal - average) = sint goal - sint average" by (rule sint_diff_exact)
    with near lt have "word_sless (goal - average) (50 * Millisecond)"
      by (simp add: word_sless_alt sint_epsilon)
    with False r show ?thesis
      by (simp add: calculateBlockTimeBuffer_def Let_def word_sless_alt max_def)
  qed
qed

lemma buffer_speed_up:
  assumes "sint (50 * Millisecond) \<le> sint average - sint goal"
    and "sint average - sint goal < 2 ^ 63"
    and "in_int64 (sint goal - sint delta - sint untilNow)"
  shows "sint (calculateBlockTimeBuffer goal average untilNow delta)
           = max 0 (sint goal - sint delta - sint untilNow)"
proof -
  note far = assms(1) [unfolded sint_epsilon]
  have r: "sint (goal - delta - untilNow) = sint goal - sint delta - sint untilNow"
    using assms(3) by (rule sint_diff2_exact)
  from far have le: "word_sle goal average" by (simp add: word_sle_eq)
  from far assms(2) have "in_int64 (sint average - sint goal)" by (simp add: in_int64_def)
  then have "sint (average - goal) = sint average - sint goal" by (rule sint_diff_exact)
  with far have "\<not> word_sless (average - goal) (50 * Millisecond)"
    by (simp add: word_sless_alt sint_epsilon)
  with le r show ?thesis
    by (simp add: calculateBlockTimeBuffer_def Let_def word_sless_alt max_def)
qed

lemma buffer_slow_down:
  assumes "sint (50 * Millisecond) \<le> sint goal - sint average"
    and "sint goal - sint average < 2 ^ 63"
    and "in_int64 (sint goal + sint delta - sint untilNow)"
  shows "sint (calculateBlockTimeBuffer goal average untilNow delta)
           = max 0 (sint goal + sint delta - sint untilNow)"
proof -
  note far = assms(1) [unfolded sint_epsilon]
  have r: "sint (goal + delta - untilNow) = sint goal + sint delta - sint untilNow"
    using assms(3) by (rule sint_add_diff_exact)
  from far have le: "\<not> word_sle goal average" by (simp add: word_sle_eq)
  from far assms(2) have "in_int64 (sint goal - sint average)" by (simp add: in_int64_def)
  then have "sint (goal - average) = sint goal - sint average" by (rule sint_diff_exact)
  with far have "\<not> word_sless (goal - average) (50 * Millisecond)"
    by (simp add: word_sless_alt sint_epsilon)
  with le r show ?thesis
    by (simp add: calculateBlockTimeBuffer_def Let_def word_sless_alt max_def)
qed

lemma buffer_goal:
  assumes "0 \<le> sint goal"
  shows "calculateBlockTimeBuffer goal goal 0 delta = goal"
  using assms
  by (simp add: calculateBlockTimeBuffer_def Let_def word_sless_alt word_sle_eq Millisecond_def)

text \<open>
  C2, as the claim states it, fails twice. A negative goal with \<open>average = goal\<close> and
  \<open>untilNow = 0\<close> is clamped to 0 and is not returned; and a difference that leaves the
  range of \<^verbatim>\<open>int64\<close> wraps around: with goal 5 s inside the deadband and \<open>untilNow\<close> the
  least duration, \<open>goal - untilNow\<close> is positive and the function returns 0.
\<close>

theorem C2_buffer_counterexample:
  "calculateBlockTimeBuffer (- 1) (- 1) 0 Second \<noteq> - 1
   \<and> sint (calculateBlockTimeBuffer (5 * Second) (5 * Second) minDuration Second)
       \<noteq> max 0 (sint (5 * Second) - sint minDuration)"
  by (simp add: calculateBlockTimeBuffer_def Let_def word_sless_alt word_sle_eq
      Millisecond_def Second_def minDuration_def)

text \<open>
  C2, amended: with \<open>delta\<close> one second, the buffer is \<open>max 0 (goal - untilNow)\<close> when
  \<open>|average - goal| < 50 ms\<close>, \<open>max 0 (goal - delta - untilNow)\<close> when
  \<open>average - goal \<ge> 50 ms\<close>, and \<open>max 0 (goal + delta - untilNow)\<close> when
  \<open>goal - average \<ge> 50 ms\<close>, in each case provided the difference of average and goal and
  the unclamped result fit \<^verbatim>\<open>int64\<close>; the buffer is never negative, whatever the
  inputs; and it equals the goal when \<open>average = goal\<close>, \<open>untilNow = 0\<close> and the goal is
  not negative.
\<close>

theorem C2_buffer_cases:
  fixes goal average untilNow :: Duration
  shows
    "(\<bar>sint average - sint goal\<bar> < sint (50 * Millisecond)
        \<and> in_int64 (sint goal - sint untilNow)
      \<longrightarrow> sint (calculateBlockTimeBuffer goal average untilNow Second)
            = max 0 (sint goal - sint untilNow))
     \<and> (sint (50 * Millisecond) \<le> sint average - sint goal
        \<and> sint average - sint goal < 2 ^ 63
        \<and> in_int64 (sint goal - sint Second - sint untilNow)
      \<longrightarrow> sint (calculateBlockTimeBuffer goal average untilNow Second)
            = max 0 (sint goal - sint Second - sint untilNow))
     \<and> (sint (50 * Millisecond) \<le> sint goal - sint average
        \<and> sint goal - sint average < 2 ^ 63
        \<and> in_int64 (sint goal + sint Second - sint untilNow)
      \<longrightarrow> sint (calculateBlockTimeBuffer goal average untilNow Second)
            = max 0 (sint goal + sint Second - sint untilNow))
     \<and> 0 \<le> sint (calculateBlockTimeBuffer goal average untilNow Second)
     \<and> (0 \<le> sint goal \<longrightarrow> calculateBlockTimeBuffer goal goal 0 Second = goal)"
  using buffer_deadband [of average goal untilNow Second]
    buffer_speed_up [of average goal Second untilNow]
    buffer_slow_down [of goal average Second untilNow]
    buffer_nonneg [of goal average untilNow Second]
    buffer_goal [of goal Second]
  by blast

text \<open>
  The scenarios of the spec: goal 5 s, one second elapsed, and the average at 5.02 s,
  6 s and 4 s; then ten seconds elapsed; then average equal to the goal and nothing
  elapsed.
\<close>

theorem C2_buffer_cases_witness:
  "sint (calculateBlockTimeBuffer (5 * Second) (5 * Second + 20 * Millisecond) Second Second)
     = 4000000000
   \<and> sint (calculateBlockTimeBuffer (5 * Second) (6 * Second) Second Second) = 3000000000
   \<and> sint (calculateBlockTimeBuffer (5 * Second) (4 * Second) Second Second) = 5000000000
   \<and> sint (calculateBlockTimeBuffer (5 * Second) (5 * Second) (10 * Second) Second) = 0
   \<and> calculateBlockTimeBuffer (5 * Second) (5 * Second) 0 Second = 5 * Second"
proof -
  have a: "sint (5 * Second) = 5000000000" "sint (6 * Second) = 6000000000"
    "sint (4 * Second) = 4000000000" "sint (10 * Second) = 10000000000"
    "sint (5 * Second + 20 * Millisecond) = 5020000000" "sint Second = 1000000000"
    "sint (50 * Millisecond) = 50000000"
    by (simp_all add: Second_def Millisecond_def)
  show ?thesis
    using C2_buffer_cases [of "5 * Second + 20 * Millisecond" "5 * Second" Second]
      C2_buffer_cases [of "6 * Second" "5 * Second" Second]
      C2_buffer_cases [of "4 * Second" "5 * Second" Second]
      C2_buffer_cases [of "5 * Second" "5 * Second" "10 * Second"]
      C2_buffer_cases [of "5 * Second" "5 * Second" 0]
    by (simp add: a in_int64_def)
qed

section \<open>The pacer: the average block time\<close>

lemma average_small_height:
  fixes blockHeight :: uint64
  assumes "1 \<le> blockHeight" and "blockHeight \<le> 2 ^ 63"
  shows "sint (calculateAverageBlockTime now gen blockHeight)
           = sint (Sub now gen) sdiv max 1 (uint blockHeight - 1)"
proof (cases "blockHeight - 1 = 0")
  case True
  then have "uint blockHeight - 1 = 0" using height_small(1) [OF assms] by simp
  with True show ?thesis by (simp add: calculateAverageBlockTime_def)
next
  case False
  then have "uint (blockHeight - 1) \<noteq> 0" by (simp add: uint_0_iff)
  then have pos: "1 \<le> uint blockHeight - 1"
    using height_small(1) [OF assms] uint_ge_0 [of "blockHeight - 1"] by linarith
  then have "1 \<le> sint (blockHeight - 1)" using height_small(2) [OF assms] by simp
  then have "sint (Duration_div (Sub now gen) (blockHeight - 1))
               = sint (Sub now gen) sdiv sint (blockHeight - 1)"
    by (rule sint_Duration_div_pos)
  with False pos show ?thesis using height_small(2) [OF assms]
    by (simp add: calculateAverageBlockTime_def max_def)
qed

text \<open>
  C8, as the claim states it, fails for a height above \<open>2 ^ 63\<close>: \<open>blockHeight - 1\<close>
  converted to a duration is negative there. At the greatest height the divisor is \<open>-2\<close>,
  and ten nanoseconds since genesis give \<open>-5\<close>, where the claim gives 0.
\<close>

theorem C8_average_counterexample:
  "(1 :: uint64) \<le> 18446744073709551615
   \<and> sint (calculateAverageBlockTime 10 0 18446744073709551615)
       \<noteq> sint (Sub 10 0) sdiv max 1 (uint (18446744073709551615 :: uint64) - 1)"
  by (simp add: calculateAverageBlockTime_def Duration_div_def Sub_def signed_divide_int_def)

text \<open>
  C8, amended: for every block height from 1 to \<open>2 ^ 63\<close>, the average is the time since
  genesis divided (truncating towards zero) by \<open>max 1 (blockHeight - 1)\<close>; at height 1 it is
  the whole time since genesis, and at height 2 the same value, divided by 1.
\<close>

theorem C8_average:
  fixes blockHeight :: uint64
  shows
    "(1 \<le> blockHeight \<and> blockHeight \<le> 2 ^ 63
      \<longrightarrow> sint (calculateAverageBlockTime now gen blockHeight)
            = sint (Sub now gen) sdiv max 1 (uint blockHeight - 1))
     \<and> calculateAverageBlockTime now gen 1 = Sub now gen
     \<and> calculateAverageBlockTime now gen 2 = Sub now gen"
proof -
  have "calculateAverageBlockTime now gen 2 = Sub now gen"
    by (simp add: calculateAverageBlockTime_def Duration_div_def)
  moreover have "calculateAverageBlockTime now gen 1 = Sub now gen"
    by (simp add: calculateAverageBlockTime_def)
  ultimately show ?thesis using average_small_height [of blockHeight now gen] by blast
qed

theorem C8_average_witness:
  "(1 :: uint64) \<le> 11 \<and> (11 :: uint64) \<le> 2 ^ 63
   \<and> sint (calculateAverageBlockTime 100 0 11) = 10
   \<and> sint (calculateAverageBlockTime (- 100) 0 4) = - 33"
  using C8_average [of 11 100 0] C8_average [of 4 "- 100" 0]
  by (simp add: Sub_def signed_divide_int_def)

text \<open>
  C9, as the claim states it, fails: the difference \<open>0 - 1\<close> does wrap to \<open>2 ^ 64 - 1\<close>,
  but the divisor is that value converted to a duration, which is \<open>-1\<close>. Ten seconds
  since genesis give minus ten seconds, not the quotient by \<open>2 ^ 64 - 1\<close>, which is 0.
\<close>

theorem C9_height_zero_counterexample:
  "sint (calculateAverageBlockTime 10000000000 0 0) = - 10000000000
   \<and> sint (Sub 10000000000 0) sdiv (2 ^ 64 - 1) = 0"
  by (simp add: calculateAverageBlockTime_def Duration_div_def Sub_def signed_divide_int_def)

text \<open>
  C9, amended: at block height 0 the unsigned difference \<open>blockHeight - 1\<close> wraps to
  \<open>2 ^ 64 - 1\<close>, which as a duration is \<open>-1\<close>, so the function returns the negated time
  since genesis (in 64-bit arithmetic) and not the time since genesis itself.
\<close>

theorem C9_height_zero:
  "(0 :: uint64) - 1 = 18446744073709551615
   \<and> sint ((0 :: uint64) - 1) = - 1
   \<and> calculateAverageBlockTime now gen 0 = - Sub now gen"
  by (simp add: calculateAverageBlockTime_def Duration_div_def)


section \<open>The state manager: submitting a transition\<close>

text \<open>
  C4: \<^verbatim>\<open>TransitISAACState(height, round, ballotState)\<close> hands the target to a sender on
  the transition channel if and only if the target is later than the current state read
  at the call; otherwise nothing is sent and the manager is left as it was. The function
  has no error result, and the current state is not changed by the call either way.
\<close>

theorem C4_TransitISAACState_gate:
  "State (TransitISAACState sm h r b) = State sm
   \<and> (IsLater (State sm) \<lparr> Height = h, Round = r, BallotState = b \<rparr>
        \<longrightarrow> TransitISAACState sm h r b
              = sm\<lparr>stateTransit := stateTransit sm @ [\<lparr> Height = h, Round = r, BallotState = b \<rparr>]\<rparr>)
   \<and> (\<not> IsLater (State sm) \<lparr> Height = h, Round = r, BallotState = b \<rparr>
        \<longrightarrow> TransitISAACState sm h r b = sm)
   \<and> (stateTransit (TransitISAACState sm h r b) \<noteq> stateTransit sm
        \<longleftrightarrow> IsLater (State sm) \<lparr> Height = h, Round = r, BallotState = b \<rparr>)"
  by (simp add: TransitISAACState_def State_def Let_def)

text \<open>
  The scenario of the spec: at \<open>(5, 2, SIGN)\<close> the target \<open>(5, 2, INIT)\<close> is dropped and the
  target \<open>(5, 3, INIT)\<close> is sent.
\<close>

theorem C4_TransitISAACState_gate_witness:
  "TransitISAACState
     (setState (NewISAACStateManager 0 scenario_Config) \<lparr> Height = 5, Round = 2, BallotState = StateSIGN \<rparr>)
     5 2 StateINIT
   = setState (NewISAACStateManager 0 scenario_Config) \<lparr> Height = 5, Round = 2, BallotState = StateSIGN \<rparr>
   \<and> stateTransit
       (TransitISAACState
          (setState (NewISAACStateManager 0 scenario_Config) \<lparr> Height = 5, Round = 2, BallotState = StateSIGN \<rparr>)
          5 3 StateINIT)
     = [\<lparr> Height = 5, Round = 3, BallotState = StateINIT \<rparr>]"
  using
    C4_TransitISAACState_gate
      [of "setState (NewISAACStateManager 0 scenario_Config) \<lparr> Height = 5, Round = 2, BallotState = StateSIGN \<rparr>"
          5 2 StateINIT]
    C4_TransitISAACState_gate
      [of "setState (NewISAACStateManager 0 scenario_Config) \<lparr> Height = 5, Round = 2, BallotState = StateSIGN \<rparr>"
          5 3 StateINIT]
  by (simp add: setState_def NewISAACStateManager_def IsLater_def State_def)

section \<open>The state manager: the timer fires\<close>

lemma onTimer_ACCEPT:
  assumes "BallotState (State sm) = StateACCEPT"
  shows "onTimer Next nr sm
           = TransitISAACState (SetBlockTimeBuffer nr (sm\<lparr>timer := None\<rparr>))
               (Height (State sm)) (Round (State sm) + 1) StateINIT"
    and "broadcast (onTimer Next nr sm) = broadcast sm"
    and "signalled (onTimer Next nr sm) = signalled sm"
    and "State (onTimer Next nr sm) = State sm"
    and "blockTimeBuffer (onTimer Next nr sm)
           = calculateBlockTimeBuffer (BlockTime (Conf sm))
               (calculateAverageBlockTime (Now_average nr) (genesis sm)
                  (Height_Block (LatestBlock nr)))
               (Sub (Now_untilNow nr) (ParseISO8601 nr (Confirmed (LatestBlock nr))))
               Second"
  using assms
  by (simp_all add: onTimer_def Let_def IncreaseRound_def State_def SetBlockTimeBuffer_def
      TransitISAACState_def getBallotProposedTime_def)

lemma onTimer_other:
  assumes "BallotState (State sm) \<noteq> StateACCEPT"
  shows "broadcast (onTimer Next nr sm)
           = broadcast sm @ [broadcastExpiredBallot Next nr (State sm)]"
    and "State (onTimer Next nr sm)
           = (State sm)\<lparr>BallotState := Next (BallotState (State sm))\<rparr>"
    and "signalled (onTimer Next nr sm)
           = signalled sm @ [(State sm)\<lparr>BallotState := Next (BallotState (State sm))\<rparr>]"
    and "stateTransit (onTimer Next nr sm) = stateTransit sm"
    and "timer (onTimer Next nr sm)
           = (case Next (BallotState (State sm)) of
                StateINIT \<Rightarrow> Some (TimeoutINIT (Conf sm))
              | StateSIGN \<Rightarrow> Some (TimeoutSIGN (Conf sm))
              | StateACCEPT \<Rightarrow> Some (TimeoutACCEPT (Conf sm))
              | StateALLCONFIRM \<Rightarrow> None)"
  using assms
  by (simp_all add: onTimer_def Let_def State_def setBallotState_def resetTimer_def
      transitSignal_def split: ballot_State.splits)

lemma expired_ballot_vote:
  "State_Ballot (broadcastExpiredBallot Next nr s) = Next (BallotState s)"
  "Vote (broadcastExpiredBallot Next nr s) = EXP"
  "Round_Basis (basis (broadcastExpiredBallot Next nr s)) = Round s"
  "Height_Basis (basis (broadcastExpiredBallot Next nr s)) = Height_Block (LatestBlock nr)"
  by (simp_all add: broadcastExpiredBallot_def Let_def)

text \<open>
  C3: when the timer fires and the current ballot state is ACCEPT, the manager
  recomputes \<open>blockTimeBuffer\<close> and calls \<^verbatim>\<open>TransitISAACState\<close> with
  \<open>(Height, Round + 1, INIT)\<close>, broadcasts nothing and leaves the current state alone.
  Otherwise it broadcasts exactly one ballot, made for the current state and voting EXP
  for the successor of the current ballot state; the current ballot state becomes that
  successor, height and round unchanged; the timer is reset to the timeout configured
  for the successor (INIT, SIGN and ACCEPT have one; \<^verbatim>\<open>resetTimer\<close> has no case for
  ALLCONFIRM, so after a successor ALLCONFIRM the timer stays unset); and
  \<^verbatim>\<open>transitSignal\<close> is called once, with the new state. This holds whatever the
  successor function \<open>Next\<close> is.
\<close>

theorem C3_timer_fires:
  "(BallotState (State sm) = StateACCEPT \<longrightarrow>
      onTimer Next nr sm
        = TransitISAACState (SetBlockTimeBuffer nr (sm\<lparr>timer := None\<rparr>))
            (Height (State sm)) (Round (State sm) + 1) StateINIT
      \<and> blockTimeBuffer (onTimer Next nr sm)
          = calculateBlockTimeBuffer (BlockTime (Conf sm))
              (calculateAverageBlockTime (Now_average nr) (genesis sm)
                 (Height_Block (LatestBlock nr)))
              (Sub (Now_untilNow nr) (ParseISO8601 nr (Confirmed (LatestBlock nr))))
              Second
      \<and> broadcast (onTimer Next nr sm) = broadcast sm
      \<and> signalled (onTimer Next nr sm) = signalled sm
      \<and> State (onTimer Next nr sm) = State sm)
   \<and> (BallotState (State sm) \<noteq> StateACCEPT \<longrightarrow>
      broadcast (onTimer Next nr sm) = broadcast sm @ [broadcastExpiredBallot Next nr (State sm)]
      \<and> Round_Basis (basis (broadcastExpiredBallot Next nr (State sm))) = Round (State sm)
      \<and> State_Ballot (broadcastExpiredBallot Next nr (State sm)) = Next (BallotState (State sm))
      \<and> Vote (broadcastExpiredBallot Next nr (State sm)) = EXP
      \<and> State (onTimer Next nr sm) = (State sm)\<lparr>BallotState := Next (BallotState (State sm))\<rparr>
      \<and> timer (onTimer Next nr sm)
          = (case Next (BallotState (State sm)) of
               StateINIT \<Rightarrow> Some (TimeoutINIT (Conf sm))
             | StateSIGN \<Rightarrow> Some (TimeoutSIGN (Conf sm))
             | StateACCEPT \<Rightarrow> Some (TimeoutACCEPT (Conf sm))
             | StateALLCONFIRM \<Rightarrow> None)
      \<and> signalled (onTimer Next nr sm) = signalled sm @ [State (onTimer Next nr sm)]
      \<and> stateTransit (onTimer Next nr sm) = stateTransit sm)"
proof (cases "BallotState (State sm) = StateACCEPT")
  case True
  then show ?thesis using onTimer_ACCEPT [OF True, of Next nr] by simp
next
  case False
  then show ?thesis
    using onTimer_other [OF False, of Next nr] expired_ballot_vote [of Next nr "State sm"]
    by simp
qed

text \<open>
  The two scenarios of the spec, with the successor function of the spec. At
  \<open>(7, 0, ACCEPT)\<close> the transition \<open>(7, 1, INIT)\<close> is handed to a sender and nothing is
  broadcast. At \<open>(7, 0, SIGN)\<close> one ballot is broadcast, voting EXP for ACCEPT, the state
  becomes \<open>(7, 0, ACCEPT)\<close> and the timer is reset to \<open>TimeoutACCEPT\<close>.
\<close>

theorem C3_timer_fires_witness:
  "stateTransit
     (onTimer successor scenario_NodeRunner
        (setState (NewISAACStateManager 0 scenario_Config) \<lparr> Height = 7, Round = 0, BallotState = StateACCEPT \<rparr>))
     = [\<lparr> Height = 7, Round = 1, BallotState = StateINIT \<rparr>]
   \<and> broadcast
       (onTimer successor scenario_NodeRunner
          (setState (NewISAACStateManager 0 scenario_Config) \<lparr> Height = 7, Round = 0, BallotState = StateACCEPT \<rparr>))
     = []
   \<and> map (\<lambda>b. (State_Ballot b, Vote b))
       (broadcast
          (onTimer successor scenario_NodeRunner
             (setState (NewISAACStateManager 0 scenario_Config) \<lparr> Height = 7, Round = 0, BallotState = StateSIGN \<rparr>)))
     = [(StateACCEPT, EXP)]
   \<and> State
       (onTimer successor scenario_NodeRunner
          (setState (NewISAACStateManager 0 scenario_Config) \<lparr> Height = 7, Round = 0, BallotState = StateSIGN \<rparr>))
     = \<lparr> Height = 7, Round = 0, BallotState = StateACCEPT \<rparr>
   \<and> timer
       (onTimer successor scenario_NodeRunner
          (setState (NewISAACStateManager 0 scenario_Config) \<lparr> Height = 7, Round = 0, BallotState = StateSIGN \<rparr>))
     = Some (2 * Second)"
  using
    C3_timer_fires
      [of "setState (NewISAACStateManager 0 scenario_Config) \<lparr> Height = 7, Round = 0, BallotState = StateACCEPT \<rparr>"
          successor scenario_NodeRunner]
    C3_timer_fires
      [of "setState (NewISAACStateManager 0 scenario_Config) \<lparr> Height = 7, Round = 0, BallotState = StateSIGN \<rparr>"
          successor scenario_NodeRunner]
  by (simp add: setState_def NewISAACStateManager_def State_def TransitISAACState_def
      SetBlockTimeBuffer_def IsLater_def Let_def scenario_Config_def)

section \<open>The state manager: the order of the observed states\<close>

text \<open>
  C1 does not hold of the code. The test \<^verbatim>\<open>IsLater\<close> is made when the target is
  submitted, and the loop adopts whatever it receives without a second test. From
  \<open>(h, r, INIT)\<close>, two callers submit \<open>(h, r, ACCEPT)\<close> and then \<open>(h, r, SIGN)\<close> before the
  loop takes either: both are later than the current state and both are sent. The loop
  receives them in that order, and the state goes from ACCEPT back to SIGN.
\<close>

theorem C1_state_goes_back:
  "observe Next nr
     (setState (NewISAACStateManager gen conf) \<lparr> Height = h, Round = r, BallotState = StateINIT \<rparr>)
     [Call_TransitISAACState h r StateACCEPT, Call_TransitISAACState h r StateSIGN,
      Select_stateTransit 0, Select_stateTransit 0]
   = Some [\<lparr> Height = h, Round = r, BallotState = StateINIT \<rparr>,
           \<lparr> Height = h, Round = r, BallotState = StateINIT \<rparr>,
           \<lparr> Height = h, Round = r, BallotState = StateINIT \<rparr>,
           \<lparr> Height = h, Round = r, BallotState = StateACCEPT \<rparr>,
           \<lparr> Height = h, Round = r, BallotState = StateSIGN \<rparr>]
   \<and> \<not> monotone
         [\<lparr> Height = h, Round = r, BallotState = StateINIT \<rparr>,
          \<lparr> Height = h, Round = r, BallotState = StateINIT \<rparr>,
          \<lparr> Height = h, Round = r, BallotState = StateINIT \<rparr>,
          \<lparr> Height = h, Round = r, BallotState = StateACCEPT \<rparr>,
          \<lparr> Height = h, Round = r, BallotState = StateSIGN \<rparr>]"
  by (simp add: step_def TransitISAACState_def IsLater_def State_def setState_def
      NewISAACStateManager_def onTransit_def transitSignal_def Let_def)

end
